theory Spec2Isabelle
  imports Main "HOL-Library.Sublist"
begin

section \<open>Data model\<close>

text \<open>
  The records of \<^verbatim>\<open>./ci\<close> and of the REST client that \<^verbatim>\<open>src/github.ts\<close> reads.
  Field names carry a prefix where two records of the source share a field name.
  The declarations of \<^verbatim>\<open>./ci\<close> are not in the source file; every identifier, state
  and time stamp is taken as a string, the type the source compares them at.
\<close>

record BuildInfo =
  bi_id :: string
  bi_domain :: string
  bi_owner :: string
  bi_repo :: string
  bi_headSha :: string

record JobInfo =
  jobId :: string
  job_name :: string
  job_url :: string
  job_state :: string
  startedAt :: string
  finishedAt :: string
  ignoreFailure :: bool

text \<open>The optional structured output block a job may carry (title, summary, text).\<close>

record JobOutput =
  out_title :: string
  out_summary :: string
  out_text :: string

text \<open>
  An item of the list-check-runs response. \<open>cr_external_id = None\<close> stands for a missing
  (\<^verbatim>\<open>null\<close> or \<^verbatim>\<open>undefined\<close>) external id.
\<close>

record CheckRun =
  cr_app_id :: nat
  cr_external_id :: "string option"
  cr_status :: string
  cr_name :: string
  cr_conclusion :: "string option"

record ListForRefResponse =
  check_runs :: "CheckRun list"

text \<open>The parameters of the create-check-run call; the last three fields are optional.\<close>

record ChecksCreateParams =
  details_url :: string
  external_id :: string
  head_sha :: string
  cp_name :: string
  cp_owner :: string
  cp_repo :: string
  started_at :: string
  cp_status :: string
  conclusion :: "string option"
  completed_at :: "string option"
  cp_output :: "JobOutput option"

record Repository =
  owner_login :: string
  repo_name :: string
  full_name :: string

record IssueComment =
  ic_repository :: Repository
  issue_number :: nat
  comment_id :: nat

record PullRequestHead =
  head_commit_sha :: string

record PullRequest =
  pr_head :: "PullRequestHead option"

record StatusItem =
  st_context :: string
  st_target_url :: string

record StatusInfo =
  si_repository :: Repository
  si_sha :: string
  si_target_url :: string

section \<open>Effects: exceptions and the trace of observable actions\<close>

text \<open>A thrown value (a rejected promise or a raised exception).\<close>

datatype error = Error string

text \<open>What a run does to the outside world, in order: log lines and remote calls.\<close>

datatype event =
    LogDebug string "ChecksCreateParams option"
  | LogError error string
  | GetJobOutputCall JobInfo
  | ChecksCreateCall ChecksCreateParams
  | ListForRefCall string string string
  | PullRequestsGetCall nat string string
  | GetStatusesCall string string string

text \<open>
  A computation takes the trace so far and returns either a thrown error (\<open>Inl\<close>) or a
  value (\<open>Inr\<close>), with the trace extended by what it did.
\<close>

type_synonym 'a io = "event list \<Rightarrow> (error + 'a) \<times> event list"

definition return_io :: "'a \<Rightarrow> 'a io" where
  "return_io x = (\<lambda>t. (Inr x, t))"

definition bind_io :: "'a io \<Rightarrow> ('a \<Rightarrow> 'b io) \<Rightarrow> 'b io" where
  "bind_io m f = (\<lambda>t. case m t of (Inl e, t') \<Rightarrow> (Inl e, t') | (Inr x, t') \<Rightarrow> f x t')"

text \<open>\<^verbatim>\<open>try { m } catch (e) { h e }\<close>\<close>

definition try_catch :: "'a io \<Rightarrow> (error \<Rightarrow> 'a io) \<Rightarrow> 'a io" where
  "try_catch m h = (\<lambda>t. case m t of (Inl e, t') \<Rightarrow> h e t' | (Inr x, t') \<Rightarrow> (Inr x, t'))"

text \<open>Awaiting a call whose outcome is \<open>r\<close>: the call is recorded, a rejection is thrown.\<close>

definition await :: "event \<Rightarrow> (error + 'a) \<Rightarrow> 'a io" where
  "await ev r = (\<lambda>t. (r, t @ [ev]))"

text \<open>The logger never throws.\<close>

definition log_debug :: "string \<Rightarrow> ChecksCreateParams option \<Rightarrow> unit io" where
  "log_debug msg payload = (\<lambda>t. (Inr (), t @ [LogDebug msg payload]))"

definition log_error :: "error \<Rightarrow> string \<Rightarrow> unit io" where
  "log_error e msg = (\<lambda>t. (Inr (), t @ [LogError e msg]))"

text \<open>Running a computation from the empty trace.\<close>

definition result_of :: "'a io \<Rightarrow> error + 'a" where
  "result_of m = fst (m [])"

definition trace_of :: "'a io \<Rightarrow> event list" where
  "trace_of m = snd (m [])"

section \<open>Strings\<close>

text \<open>\<^verbatim>\<open>Number.prototype.toString\<close> on a non-negative integer: its decimal digits.\<close>

definition digit_char :: "nat \<Rightarrow> char" where
  "digit_char d = ''0123456789'' ! d"

fun toString :: "nat \<Rightarrow> string" where
  "toString n = (if n < 10 then [digit_char n] else toString (n div 10) @ [digit_char (n mod 10)])"

declare toString.simps [simp del]

text \<open>
  \<^verbatim>\<open>String.prototype.split(sep)\<close> for a one-character separator: the pieces between
  the separators, in order; the empty string gives one empty piece.
\<close>

fun js_split :: "char \<Rightarrow> string \<Rightarrow> string list" where
  "js_split sep [] = [[]]"
| "js_split sep (c # cs) =
     (if c = sep then [] # js_split sep cs
      else (case js_split sep cs of
              [] \<Rightarrow> [[c]]
            | w # ws \<Rightarrow> (c # w) # ws))"

text \<open>Reading index \<open>i\<close> of an array: \<open>None\<close> is \<^verbatim>\<open>undefined\<close>, past the end.\<close>

definition at_index :: "'a list \<Rightarrow> nat \<Rightarrow> 'a option" where
  "at_index xs i = (if i < length xs then Some (xs ! i) else None)"

section \<open>Status and conclusion of a job\<close>

definition FINISHED_STATES :: "string list" where
  "FINISHED_STATES = [''passed'', ''failed'', ''errored'', ''canceled'']"

definition getStatus :: "JobInfo \<Rightarrow> string" where
  "getStatus jobInfo =
     (if List.member FINISHED_STATES (job_state jobInfo) then ''completed''
      else if job_state jobInfo = ''started'' then ''in_progress''
      else ''queued'')"

definition getConclusion :: "JobInfo \<Rightarrow> string" where
  "getConclusion jobInfo =
     (if job_state jobInfo = ''passed'' then ''success''
      else if job_state jobInfo = ''failed'' \<and> \<not> ignoreFailure jobInfo then ''failure''
      else if job_state jobInfo = ''canceled'' then ''cancelled''
      else ''neutral'')"

section \<open>Pagination helper of the API client\<close>

text \<open>
  Modelled from the spec: the pagination helper of the external API client, which is not
  part of this repository. Pagination is page-based with a caller-supplied per-page
  reducer and early-stop callback; pages are requested in sequence, page N+1 only after
  page N is consumed, and no page is requested after the callback has asked to stop.

  The remote side is the outcome of the first request and of each later page request.
  The callback gets a page and the caller's variables \<open>s\<close>; it returns the items it
  contributes, whether it called \<^verbatim>\<open>done()\<close>, and the caller's variables afterwards.
\<close>

type_synonym 'r pages = "(error + 'r) \<times> (error + 'r) list"

fun paginate_loop ::
  "('r \<Rightarrow> 's \<Rightarrow> 'c list \<times> bool \<times> 's) \<Rightarrow> (error + 'r) list \<Rightarrow> 'c list \<Rightarrow> 's \<Rightarrow> ('c list \<times> 's) io"
where
  "paginate_loop callback [] collection s = return_io (collection, s)"
| "paginate_loop callback (Inl e # rest) collection s = (\<lambda>t. (Inl e, t))"
| "paginate_loop callback (Inr res # rest) collection s =
     (case callback res s of
        (items, done, s') \<Rightarrow>
          if done then return_io (collection @ items, s')
          else paginate_loop callback rest (collection @ items) s')"

definition paginate ::
  "'r pages \<Rightarrow> ('r \<Rightarrow> 's \<Rightarrow> 'c list \<times> bool \<times> 's) \<Rightarrow> 's \<Rightarrow> ('c list \<times> 's) io"
where
  "paginate responses callback s = paginate_loop callback (fst responses # snd responses) [] s"

section \<open>Static operations\<close>

text \<open>
  The part of the framework's context that \<^verbatim>\<open>getLatestTravisStatus\<close> uses: the
  outcome of fetching a pull request (number, owner, repo) and the status pages of a
  commit (owner, ref, repo).
\<close>

record Context =
  pullRequests_get :: "nat \<Rightarrow> string \<Rightarrow> string \<Rightarrow> error + PullRequest"
  repos_getStatuses :: "string \<Rightarrow> string \<Rightarrow> string \<Rightarrow> StatusItem list pages"

text \<open>
  The page callback of \<^verbatim>\<open>getLatestTravisStatus\<close>: the first status of the page with
  the Travis context is stored in the variable \<^verbatim>\<open>travisStatus\<close> and \<^verbatim>\<open>done()\<close> is
  called; the callback returns nothing to collect.
\<close>

definition travis_callback ::
  "StatusItem list \<Rightarrow> StatusItem option \<Rightarrow> unit list \<times> bool \<times> StatusItem option"
where
  "travis_callback res travisStatus =
     (case find (\<lambda>status. st_context status = ''continuous-integration/travis-ci/pr'') res of
        Some status \<Rightarrow> ([], True, Some status)
      | None \<Rightarrow> ([], False, travisStatus))"

definition getLatestTravisStatus :: "Context \<Rightarrow> IssueComment \<Rightarrow> StatusInfo option io" where
  "getLatestTravisStatus context issueComment =
     (let repo = ic_repository issueComment in
      try_catch
        (bind_io
           (await (PullRequestsGetCall (issue_number issueComment) (owner_login repo) (repo_name repo))
              (pullRequests_get context (issue_number issueComment) (owner_login repo) (repo_name repo)))
           (\<lambda>pr.
              case pr_head pr of
                None \<Rightarrow> return_io None
              | Some head \<Rightarrow>
                  bind_io
                    (bind_io
                       (\<lambda>t. (Inr (),
                              t @ [GetStatusesCall (owner_login repo) (head_commit_sha head) (repo_name repo)]))
                       (\<lambda>_. paginate
                              (repos_getStatuses context (owner_login repo) (head_commit_sha head)
                                 (repo_name repo))
                              travis_callback None))
                    (\<lambda>(_, travisStatus).
                       case travisStatus of
                         None \<Rightarrow> return_io None
                       | Some status \<Rightarrow>
                           return_io
                             (Some \<lparr>si_repository = repo,
                                    si_sha = head_commit_sha head,
                                    si_target_url = st_target_url status\<rparr>))))
        (\<lambda>e. bind_io
                (log_error e
                   (''Error occurred fetching latest Travis status for PR ''
                      @ toString (issue_number issueComment) @ '' in '' @ full_name repo))
                (\<lambda>_. return_io None)))"

section \<open>The instance bound to one build\<close>

record Client =
  checks_create :: "ChecksCreateParams \<Rightarrow> error + nat"
  checks_listForRef :: "string \<Rightarrow> string \<Rightarrow> string \<Rightarrow> ListForRefResponse pages"

record GitHub =
  appId :: nat
  buildInfo :: BuildInfo
  client :: Client
  getJobOutput :: "JobInfo \<Rightarrow> error + JobOutput option"

definition existing_callback ::
  "GitHub \<Rightarrow> ListForRefResponse \<Rightarrow> unit \<Rightarrow> CheckRun list \<times> bool \<times> unit"
where
  "existing_callback this res u = (filter (\<lambda>c. cr_app_id c = appId this) (check_runs res), False, u)"

definition getExistingChecks :: "GitHub \<Rightarrow> CheckRun list io" where
  "getExistingChecks this =
     bind_io
       (log_debug (''Fetching existing checks for build '' @ bi_id (buildInfo this)) None)
       (\<lambda>_. try_catch
              (bind_io
                 (bind_io
                    (\<lambda>t. (Inr (),
                           t @ [ListForRefCall (bi_owner (buildInfo this)) (bi_headSha (buildInfo this))
                                  (bi_repo (buildInfo this))]))
                    (\<lambda>_. paginate
                           (checks_listForRef (client this) (bi_owner (buildInfo this))
                              (bi_headSha (buildInfo this)) (bi_repo (buildInfo this)))
                           (existing_callback this) ()))
                 (\<lambda>(myChecks, _).
                    bind_io
                      (log_debug
                         (''Fetched '' @ toString (length myChecks) @ '' existing checks for build ''
                            @ bi_id (buildInfo this)) None)
                      (\<lambda>_. return_io myChecks)))
              (\<lambda>e. bind_io
                      (log_error e
                         (''Error occurred fetching existing checks for build ''
                            @ bi_id (buildInfo this)))
                      (\<lambda>_. return_io [])))"

definition isCheckForJob :: "GitHub \<Rightarrow> CheckRun \<Rightarrow> JobInfo \<Rightarrow> bool" where
  "isCheckForJob this c j =
     (case cr_external_id c of
        None \<Rightarrow> False
      | Some eid \<Rightarrow>
          if eid = [] then False
          else (let parts = js_split CHR ''/'' eid;
                    domain = at_index parts 0;
                    buildId = at_index parts 1;
                    jobId' = at_index parts 2
                in Some (bi_domain (buildInfo this)) = domain
                   \<and> Some (bi_id (buildInfo this)) = buildId
                   \<and> Some (jobId j) = jobId'))"

text \<open>The \<^verbatim>\<open>for\<close> loop of \<^verbatim>\<open>checksToCreate\<close>, with the array \<^verbatim>\<open>create\<close> it pushes to.\<close>

fun checksToCreate_loop :: "GitHub \<Rightarrow> CheckRun list \<Rightarrow> JobInfo list \<Rightarrow> JobInfo list \<Rightarrow> JobInfo list" where
  "checksToCreate_loop this existingChecks [] create = create"
| "checksToCreate_loop this existingChecks (current # newJobs) create =
     (case find (\<lambda>c. isCheckForJob this c current) existingChecks of
        None \<Rightarrow> checksToCreate_loop this existingChecks newJobs (create @ [current])
      | Some existing \<Rightarrow>
          if getStatus current \<noteq> cr_status existing \<or> job_name current \<noteq> cr_name existing
          then checksToCreate_loop this existingChecks newJobs (create @ [current])
          else checksToCreate_loop this existingChecks newJobs create)"

definition checksToCreate :: "GitHub \<Rightarrow> JobInfo list \<Rightarrow> JobInfo list io" where
  "checksToCreate this newJobs =
     bind_io (getExistingChecks this)
       (\<lambda>existingChecks. return_io (checksToCreate_loop this existingChecks newJobs []))"

definition getChecksCreateParams :: "GitHub \<Rightarrow> JobInfo \<Rightarrow> ChecksCreateParams" where
  "getChecksCreateParams this jobInfo =
     \<lparr>details_url = job_url jobInfo,
      external_id = bi_domain (buildInfo this) @ ''/'' @ bi_id (buildInfo this) @ ''/'' @ jobId jobInfo,
      head_sha = bi_headSha (buildInfo this),
      cp_name = job_name jobInfo,
      cp_owner = bi_owner (buildInfo this),
      cp_repo = bi_repo (buildInfo this),
      started_at = startedAt jobInfo,
      cp_status = getStatus jobInfo,
      conclusion = None,
      completed_at = None,
      cp_output = None\<rparr>"

text \<open>The source mutates the payload in place; the model returns the updated payload.\<close>

definition addCompletionInfo :: "GitHub \<Rightarrow> ChecksCreateParams \<Rightarrow> JobInfo \<Rightarrow> ChecksCreateParams io" where
  "addCompletionInfo this payload jobInfo =
     (let payload1 = payload\<lparr>conclusion := Some (getConclusion jobInfo),
                             completed_at := Some (finishedAt jobInfo)\<rparr>
      in if conclusion payload1 = Some ''cancelled'' then return_io payload1
         else try_catch
                (bind_io (await (GetJobOutputCall jobInfo) (getJobOutput this jobInfo))
                   (\<lambda>output.
                      case output of
                        Some out \<Rightarrow> return_io (payload1\<lparr>cp_output := Some out\<rparr>)
                      | None \<Rightarrow> return_io payload1))
                (\<lambda>e. bind_io
                        (log_error e
                           (''Error occurred while getting job output for job '' @ jobId jobInfo
                              @ '', output will be skipped''))
                        (\<lambda>_. return_io payload1)))"

definition createCheck :: "GitHub \<Rightarrow> JobInfo \<Rightarrow> string option io" where
  "createCheck this jobInfo =
     (let payload0 = getChecksCreateParams this jobInfo in
      bind_io
        (if cp_status payload0 = ''completed'' then addCompletionInfo this payload0 jobInfo
         else return_io payload0)
        (\<lambda>payload.
           bind_io
             (log_debug (''Creating check for job '' @ jobId jobInfo) (Some payload))
             (\<lambda>_. try_catch
                    (bind_io (await (ChecksCreateCall payload) (checks_create (client this) payload))
                       (\<lambda>result_id.
                          let checkRunId = toString result_id in
                          bind_io
                            (log_debug
                               (''Check '' @ checkRunId @ '' created for job '' @ jobId jobInfo) None)
                            (\<lambda>_. return_io (Some checkRunId))))
                    (\<lambda>e. bind_io
                            (log_error e (''Error occurred creating check for job '' @ jobId jobInfo))
                            (\<lambda>_. return_io None)))))"

section \<open>Reading a trace\<close>

fun created_payloads :: "event list \<Rightarrow> ChecksCreateParams list" where
  "created_payloads [] = []"
| "created_payloads (ChecksCreateCall p # t) = p # created_payloads t"
| "created_payloads (_ # t) = created_payloads t"

fun output_fetches :: "event list \<Rightarrow> JobInfo list" where
  "output_fetches [] = []"
| "output_fetches (GetJobOutputCall j # t) = j # output_fetches t"
| "output_fetches (_ # t) = output_fetches t"

fun error_logs :: "event list \<Rightarrow> (error \<times> string) list" where
  "error_logs [] = []"
| "error_logs (LogError e msg # t) = (e, msg) # error_logs t"
| "error_logs (_ # t) = error_logs t"

section \<open>Names for the remote side of the status lookup\<close>

text \<open>
  The outcome of the pull-request request that \<^verbatim>\<open>getLatestTravisStatus\<close> makes, the
  outcomes of the status page requests for a head commit (the first request, then each
  later page), and the test the page callback applies to a status.
\<close>

abbreviation fetched_pull_request :: "Context \<Rightarrow> IssueComment \<Rightarrow> error + PullRequest" where
  "fetched_pull_request context issueComment \<equiv>
     pullRequests_get context (issue_number issueComment)
       (owner_login (ic_repository issueComment)) (repo_name (ic_repository issueComment))"

abbreviation status_pages ::
  "Context \<Rightarrow> IssueComment \<Rightarrow> PullRequestHead \<Rightarrow> (error + StatusItem list) list"
where
  "status_pages context issueComment head \<equiv>
     fst (repos_getStatuses context (owner_login (ic_repository issueComment))
            (head_commit_sha head) (repo_name (ic_repository issueComment)))
     # snd (repos_getStatuses context (owner_login (ic_repository issueComment))
              (head_commit_sha head) (repo_name (ic_repository issueComment)))"

abbreviation is_travis :: "StatusItem \<Rightarrow> bool" where
  "is_travis status \<equiv> st_context status = ''continuous-integration/travis-ci/pr''"

abbreviation existing_pages :: "GitHub \<Rightarrow> ListForRefResponse pages" where
  "existing_pages this \<equiv>
     checks_listForRef (client this) (bi_owner (buildInfo this)) (bi_headSha (buildInfo this))
       (bi_repo (buildInfo this))"

section \<open>Example data\<close>

text \<open>
  The build and job of the specification's example, an existing check run with a chosen
  external id, status and conclusion, and an instance whose remote side answers with the
  given pages and the given outcome of the create call.
\<close>

definition ex_buildInfo :: BuildInfo where
  "ex_buildInfo = \<lparr>bi_id = ''42'', bi_domain = ''ci'', bi_owner = ''o'', bi_repo = ''r'', bi_headSha = ''abc''\<rparr>"

definition ex_job :: "string \<Rightarrow> JobInfo" where
  "ex_job st = \<lparr>jobId = ''7'', job_name = ''build'', job_url = ''https://ci.example/7'', job_state = st,
               startedAt = ''t0'', finishedAt = ''t1'', ignoreFailure = False\<rparr>"

definition ex_check :: "string \<Rightarrow> string \<Rightarrow> string option \<Rightarrow> CheckRun" where
  "ex_check eid st concl =
     \<lparr>cr_app_id = 1, cr_external_id = Some eid, cr_status = st, cr_name = ''build'', cr_conclusion = concl\<rparr>"

definition ex_github :: "ListForRefResponse pages \<Rightarrow> (error + nat) \<Rightarrow> GitHub" where
  "ex_github pages created =
     \<lparr>appId = 1, buildInfo = ex_buildInfo,
      client = \<lparr>checks_create = (\<lambda>_. created), checks_listForRef = (\<lambda>_ _ _. pages)\<rparr>,
      getJobOutput = (\<lambda>_. Inr None)\<rparr>"

definition ex_pages :: "CheckRun list \<Rightarrow> ListForRefResponse pages" where
  "ex_pages cs = (Inr \<lparr>check_runs = cs\<rparr>, [])"

definition ex_issueComment :: IssueComment where
  "ex_issueComment =
     \<lparr>ic_repository = \<lparr>owner_login = ''o'', repo_name = ''r'', full_name = ''o/r''\<rparr>,
      issue_number = 12, comment_id = 99\<rparr>"

definition ex_context :: "(error + PullRequest) \<Rightarrow> StatusItem list pages \<Rightarrow> Context" where
  "ex_context pr pages = \<lparr>pullRequests_get = (\<lambda>_ _ _. pr), repos_getStatuses = (\<lambda>_ _ _. pages)\<rparr>"

definition ex_status :: "string \<Rightarrow> string \<Rightarrow> StatusItem" where
  "ex_status ctx url = \<lparr>st_context = ctx, st_target_url = url\<rparr>"

definition ex_pullRequest :: PullRequest where
  "ex_pullRequest = \<lparr>pr_head = Some \<lparr>head_commit_sha = ''abc''\<rparr>\<rparr>"

definition ex_output :: JobOutput where
  "ex_output = \<lparr>out_title = ''title'', out_summary = ''summary'', out_text = ''text''\<rparr>"

section \<open>Theorems\<close>

subsection \<open>Auxiliary facts\<close>

lemmas io_defs = return_io_def bind_io_def try_catch_def await_def log_debug_def log_error_def

lemma paginate_loop_trace:
  "paginate_loop cb ps coll s t = (fst (paginate_loop cb ps coll s []), t)"
  by (induction cb ps coll s rule: paginate_loop.induct)
     (auto simp: return_io_def split: prod.splits)

lemma checksToCreate_loop_filter:
  "checksToCreate_loop this existing jobs create =
     create @ filter (\<lambda>j. case find (\<lambda>c. isCheckForJob this c j) existing of
                              None \<Rightarrow> True
                            | Some c \<Rightarrow> getStatus j \<noteq> cr_status c \<or> job_name j \<noteq> cr_name c) jobs"
  by (induction jobs arbitrary: create) (auto split: option.splits)

lemma getExistingChecks_fst:
  "fst (getExistingChecks this t) =
     Inr (case result_of (paginate (checks_listForRef (client this) (bi_owner (buildInfo this))
                              (bi_headSha (buildInfo this)) (bi_repo (buildInfo this)))
                            (existing_callback this) ()) of
            Inl e \<Rightarrow> [] | Inr (cs, u) \<Rightarrow> cs)"
  unfolding getExistingChecks_def result_of_def paginate_def io_defs
  apply (subst paginate_loop_trace)
  apply (auto split: sum.splits prod.splits)
  done

lemma checksToCreate_fst:
  "fst (checksToCreate this jobs t) =
     (case fst (getExistingChecks this t) of Inl e \<Rightarrow> Inl e
      | Inr existing \<Rightarrow> Inr (checksToCreate_loop this existing jobs []))"
  unfolding checksToCreate_def io_defs
  by (auto split: sum.splits prod.splits)

lemma created_payloads_append:
  "created_payloads (a @ b) = created_payloads a @ created_payloads b"
  by (induction a rule: created_payloads.induct) simp_all

lemma output_fetches_append:
  "output_fetches (a @ b) = output_fetches a @ output_fetches b"
  by (induction a rule: output_fetches.induct) simp_all

lemma error_logs_append:
  "error_logs (a @ b) = error_logs a @ error_logs b"
  by (induction a rule: error_logs.induct) simp_all

lemma addCompletionInfo_run:
  "\<exists>p' pre. addCompletionInfo this p j t = (Inr p', t @ pre)
     \<and> created_payloads pre = []
     \<and> external_id p' = external_id p
     \<and> cp_status p' = cp_status p
     \<and> conclusion p' = Some (getConclusion j)
     \<and> completed_at p' = Some (finishedAt j)
     \<and> (getConclusion j = ''cancelled'' \<longrightarrow> pre = [] \<and> cp_output p' = cp_output p)"
  unfolding addCompletionInfo_def io_defs Let_def
  by (cases "getJobOutput this j") (auto split: option.splits)

lemma createCheck_run:
  "\<exists>p pre.
     createCheck this j t =
       (case checks_create (client this) p of
          Inr n \<Rightarrow> (Inr (Some (toString n)),
                    t @ pre @ [LogDebug (''Creating check for job '' @ jobId j) (Some p),
                               ChecksCreateCall p,
                               LogDebug (''Check '' @ toString n @ '' created for job '' @ jobId j) None])
        | Inl e \<Rightarrow> (Inr None,
                    t @ pre @ [LogDebug (''Creating check for job '' @ jobId j) (Some p),
                               ChecksCreateCall p,
                               LogError e (''Error occurred creating check for job '' @ jobId j)]))
     \<and> created_payloads pre = []
     \<and> external_id p = external_id (getChecksCreateParams this j)
     \<and> cp_status p = getStatus j
     \<and> (getStatus j \<noteq> ''completed'' \<longrightarrow> pre = [] \<and> p = getChecksCreateParams this j)
     \<and> (getStatus j = ''completed'' \<longrightarrow>
           conclusion p = Some (getConclusion j) \<and> completed_at p = Some (finishedAt j))
     \<and> (getStatus j = ''completed'' \<and> getConclusion j = ''cancelled'' \<longrightarrow>
           pre = [] \<and> cp_output p = None)"
proof (cases "getStatus j = ''completed''")
  case True
  obtain p' pre where r: "addCompletionInfo this (getChecksCreateParams this j) j t = (Inr p', t @ pre)"
    and props: "created_payloads pre = []"
      "external_id p' = external_id (getChecksCreateParams this j)"
      "cp_status p' = cp_status (getChecksCreateParams this j)"
      "conclusion p' = Some (getConclusion j)"
      "completed_at p' = Some (finishedAt j)"
      "getConclusion j = ''cancelled'' \<longrightarrow> pre = [] \<and> cp_output p' = cp_output (getChecksCreateParams this j)"
    using addCompletionInfo_run [of this "getChecksCreateParams this j" j t] by blast
  have st: "cp_status (getChecksCreateParams this j) = ''completed''"
    using True by (simp add: getChecksCreateParams_def)
  have run: "createCheck this j t =
       (case checks_create (client this) p' of
          Inr n \<Rightarrow> (Inr (Some (toString n)),
                    t @ pre @ [LogDebug (''Creating check for job '' @ jobId j) (Some p'),
                               ChecksCreateCall p',
                               LogDebug (''Check '' @ toString n @ '' created for job '' @ jobId j) None])
        | Inl e \<Rightarrow> (Inr None,
                    t @ pre @ [LogDebug (''Creating check for job '' @ jobId j) (Some p'),
                               ChecksCreateCall p',
                               LogError e (''Error occurred creating check for job '' @ jobId j)]))"
    unfolding createCheck_def Let_def
    by (simp add: st io_defs r split: sum.splits)
  have out: "cp_output (getChecksCreateParams this j) = None"
    by (simp add: getChecksCreateParams_def)
  show ?thesis
    apply (rule exI [of _ p'], rule exI [of _ pre])
    using run props True st out by simp
next
  case False
  have st: "cp_status (getChecksCreateParams this j) \<noteq> ''completed''"
    using False by (simp add: getChecksCreateParams_def)
  have run: "createCheck this j t =
       (case checks_create (client this) (getChecksCreateParams this j) of
          Inr n \<Rightarrow> (Inr (Some (toString n)),
                    t @ [] @ [LogDebug (''Creating check for job '' @ jobId j) (Some (getChecksCreateParams this j)),
                               ChecksCreateCall (getChecksCreateParams this j),
                               LogDebug (''Check '' @ toString n @ '' created for job '' @ jobId j) None])
        | Inl e \<Rightarrow> (Inr None,
                    t @ [] @ [LogDebug (''Creating check for job '' @ jobId j) (Some (getChecksCreateParams this j)),
                               ChecksCreateCall (getChecksCreateParams this j),
                               LogError e (''Error occurred creating check for job '' @ jobId j)]))"
    unfolding createCheck_def Let_def
    by (simp add: st io_defs split: sum.splits)
  show ?thesis
    apply (rule exI [of _ "getChecksCreateParams this j"], rule exI [of _ "[]"])
    using run False by (simp add: getChecksCreateParams_def)
qed

lemmas ex_defs = ex_buildInfo_def ex_job_def ex_check_def ex_github_def ex_pages_def
  ex_issueComment_def ex_context_def ex_status_def ex_pullRequest_def ex_output_def

lemma at_index_take3:
  "(Some a = at_index xs 0 \<and> Some b = at_index xs (Suc 0) \<and> Some c = at_index xs 2) = (take 3 xs = [a, b, c])"
proof (cases xs)
  case Nil
  then show ?thesis by (simp add: at_index_def)
next
  case (Cons x1 xs1)
  note c1 = Cons
  show ?thesis
  proof (cases xs1)
    case Nil
    then show ?thesis using c1 by (simp add: at_index_def)
  next
    case (Cons x2 xs2)
    note c2 = Cons
    show ?thesis
    proof (cases xs2)
      case Nil
      then show ?thesis using c1 c2 by (simp add: at_index_def)
    next
      case (Cons x3 xs3)
      then show ?thesis using c1 c2 by (auto simp: at_index_def)
    qed
  qed
qed

lemma isCheckForJob_iff:
  "isCheckForJob this c j \<longleftrightarrow>
     (\<exists>eid. cr_external_id c = Some eid \<and> eid \<noteq> []
        \<and> take 3 (js_split CHR ''/'' eid) = [bi_domain (buildInfo this), bi_id (buildInfo this), jobId j])"
  by (cases "cr_external_id c") (simp_all add: isCheckForJob_def Let_def at_index_take3)

lemma find_Some_set: "find P xs = Some x \<Longrightarrow> x \<in> set xs \<and> P x"
  by (induction xs) (auto split: if_splits)

lemma checksToCreate_result:
  "result_of (getExistingChecks this) = Inr existingChecks \<Longrightarrow>
   result_of (checksToCreate this newJobs) = Inr (checksToCreate_loop this existingChecks newJobs [])"
  by (simp add: result_of_def checksToCreate_fst)

lemma getExistingChecks_throw_run:
  assumes "result_of (paginate (existing_pages this) (existing_callback this) ()) = Inl e"
  shows "getExistingChecks this t =
           (Inr [],
            t @ [LogDebug (''Fetching existing checks for build '' @ bi_id (buildInfo this)) None,
                 ListForRefCall (bi_owner (buildInfo this)) (bi_headSha (buildInfo this))
                   (bi_repo (buildInfo this)),
                 LogError e (''Error occurred fetching existing checks for build ''
                               @ bi_id (buildInfo this))])"
proof -
  have p: "fst (paginate_loop (existing_callback this)
                  (fst (existing_pages this) # snd (existing_pages this)) [] () []) = Inl e"
    using assms by (simp add: result_of_def paginate_def)
  show ?thesis
    unfolding getExistingChecks_def paginate_def io_defs
    by (subst paginate_loop_trace) (simp add: p)
qed

lemma getExistingChecks_returns:
  "\<exists>existingChecks. result_of (getExistingChecks this) = Inr existingChecks"
  by (simp add: result_of_def getExistingChecks_fst)

lemma find_map_conclusion:
  "find (\<lambda>c. isCheckForJob this c j) (map (\<lambda>c. c\<lparr>cr_conclusion := f c\<rparr>) cs)
     = map_option (\<lambda>c. c\<lparr>cr_conclusion := f c\<rparr>) (find (\<lambda>c. isCheckForJob this c j) cs)"
  by (induction cs) (simp_all add: isCheckForJob_def)

lemma checksToCreate_loop_conclusion:
  "checksToCreate_loop this (map (\<lambda>c. c\<lparr>cr_conclusion := f c\<rparr>) cs) jobs create
     = checksToCreate_loop this cs jobs create"
  by (induction jobs arbitrary: create)
     (simp_all add: find_map_conclusion split: option.splits)

lemma checksToCreate_loop_excluded:
  assumes "find (\<lambda>c. isCheckForJob this c j) cs = Some c"
    and "getStatus j = cr_status c" and "job_name j = cr_name c"
  shows "j \<notin> set (checksToCreate_loop this cs jobs [])"
  using assms by (simp add: checksToCreate_loop_filter)

lemma travis_skip:
  "\<forall>page \<in> set pre. \<forall>status \<in> set page. \<not> is_travis status \<Longrightarrow>
   paginate_loop travis_callback (map Inr pre @ rest) coll s
     = paginate_loop travis_callback rest coll s"
proof (induction pre arbitrary: coll s)
  case Nil
  then show ?case by simp
next
  case (Cons page pre)
  have "find is_travis page = None"
    using Cons.prems by (simp add: find_None_iff)
  then show ?case
    using Cons by (simp add: travis_callback_def)
qed

lemma getLatestTravisStatus_unfold:
  "result_of (getLatestTravisStatus context ic) =
     Inr (case fetched_pull_request context ic of
            Inl e \<Rightarrow> None
          | Inr pr \<Rightarrow>
              (case pr_head pr of
                 None \<Rightarrow> None
               | Some head \<Rightarrow>
                   (case fst (paginate_loop travis_callback (status_pages context ic head) [] None []) of
                      Inl e \<Rightarrow> None
                    | Inr (coll, None) \<Rightarrow> None
                    | Inr (coll, Some status) \<Rightarrow>
                        Some \<lparr>si_repository = ic_repository ic,
                              si_sha = head_commit_sha head,
                              si_target_url = st_target_url status\<rparr>)))"
  unfolding getLatestTravisStatus_def result_of_def paginate_def io_defs Let_def
  apply (cases "fetched_pull_request context ic")
   apply simp
  subgoal for pr
    apply (cases "pr_head pr")
     apply simp
    subgoal for head
      apply simp
      apply (subst paginate_loop_trace)
      apply (simp split: sum.splits prod.splits option.splits)
      done
    done
  done

text \<open>
  On an external id with exactly three pieces, matching is equality of the split with
  domain, build id and job id.
\<close>

lemma isCheckForJob_three_pieces:
  assumes "cr_external_id c = Some eid" and "length (js_split CHR ''/'' eid) = 3"
  shows "isCheckForJob this c j \<longleftrightarrow>
           js_split CHR ''/'' eid = [bi_domain (buildInfo this), bi_id (buildInfo this), jobId j]"
proof -
  have "eid \<noteq> []"
    using assms(2) by auto
  then show ?thesis
    using assms by (simp add: isCheckForJob_iff)
qed

text \<open>
  A completed job that is not cancelled makes exactly one call of
  \<^verbatim>\<open>getJobOutput\<close>, whatever that call and the create call return.
\<close>

lemma createCheck_completed_fetches_output:
  assumes "getStatus jobInfo = ''completed''" and "getConclusion jobInfo \<noteq> ''cancelled''"
  shows "output_fetches (trace_of (createCheck this jobInfo)) = [jobInfo]"
proof -
  have st: "cp_status (getChecksCreateParams this jobInfo) = ''completed''"
    using assms(1) by (simp add: getChecksCreateParams_def)
  show ?thesis
    unfolding trace_of_def createCheck_def addCompletionInfo_def Let_def
    using assms(2)
    by (cases "getJobOutput this jobInfo")
       (simp_all add: st io_defs split: sum.splits option.splits)
qed

subsection \<open>Status and conclusion\<close>

lemma getStatus_cases:
  "getStatus j =
     (if job_state j \<in> {''passed'', ''failed'', ''errored'', ''canceled''} then ''completed''
      else if job_state j = ''started'' then ''in_progress'' else ''queued'')"
  by (simp add: getStatus_def FINISHED_STATES_def)

text \<open>
  C1. The derived check-run status depends on the job's state only: the states passed,
  failed, errored and canceled give completed, the state started gives in_progress, and
  every other state (queued or any unrecognised string) gives queued.
\<close>

theorem getStatus_total_mapping:
  "(job_state j \<in> {''passed'', ''failed'', ''errored'', ''canceled''} \<longrightarrow> getStatus j = ''completed'')
   \<and> (job_state j = ''started'' \<longrightarrow> getStatus j = ''in_progress'')
   \<and> (job_state j \<notin> {''passed'', ''failed'', ''errored'', ''canceled'', ''started''}
        \<longrightarrow> getStatus j = ''queued'')
   \<and> (job_state j' = job_state j \<longrightarrow> getStatus j' = getStatus j)"
  by (simp add: getStatus_cases)

theorem getStatus_total_mapping_witness:
  "(job_state (ex_job ''errored'') \<in> {''passed'', ''failed'', ''errored'', ''canceled''}
      \<and> getStatus (ex_job ''errored'') = ''completed'')
   \<and> (job_state (ex_job ''started'') = ''started'' \<and> getStatus (ex_job ''started'') = ''in_progress'')
   \<and> (job_state (ex_job ''waiting'') \<notin> {''passed'', ''failed'', ''errored'', ''canceled'', ''started''}
      \<and> getStatus (ex_job ''waiting'') = ''queued'')
   \<and> (job_state ((ex_job ''queued'')\<lparr>job_name := ''other''\<rparr>) = job_state (ex_job ''queued'')
      \<and> getStatus ((ex_job ''queued'')\<lparr>job_name := ''other''\<rparr>) = getStatus (ex_job ''queued''))"
proof -
  have h1: "job_state (ex_job ''errored'') \<in> {''passed'', ''failed'', ''errored'', ''canceled''}"
    by (simp add: ex_job_def)
  have h2: "job_state (ex_job ''started'') = ''started''"
    by (simp add: ex_job_def)
  have h3: "job_state (ex_job ''waiting'') \<notin> {''passed'', ''failed'', ''errored'', ''canceled'', ''started''}"
    by (simp add: ex_job_def)
  have h4: "job_state ((ex_job ''queued'')\<lparr>job_name := ''other''\<rparr>) = job_state (ex_job ''queued'')"
    by simp
  note c1 = getStatus_total_mapping [THEN conjunct1, THEN mp, OF h1]
  note c2 = getStatus_total_mapping [THEN conjunct2, THEN conjunct1, THEN mp, OF h2]
  note c3 = getStatus_total_mapping [THEN conjunct2, THEN conjunct2, THEN conjunct1, THEN mp, OF h3]
  note c4 = getStatus_total_mapping [THEN conjunct2, THEN conjunct2, THEN conjunct2, THEN mp, OF h4]
  show ?thesis
    by (intro conjI h1 h2 h3 h4 c1 c2 c3 c4)
qed

text \<open>
  C2. The derived conclusion: state passed gives success; state failed with ignoreFailure
  false gives failure; state canceled gives cancelled; every other case, including failed
  with ignoreFailure true and errored, gives neutral.
\<close>

theorem getConclusion_mapping:
  "(job_state j = ''passed'' \<longrightarrow> getConclusion j = ''success'')
   \<and> (job_state j = ''failed'' \<and> \<not> ignoreFailure j \<longrightarrow> getConclusion j = ''failure'')
   \<and> (job_state j = ''canceled'' \<longrightarrow> getConclusion j = ''cancelled'')
   \<and> (job_state j = ''failed'' \<and> ignoreFailure j \<longrightarrow> getConclusion j = ''neutral'')
   \<and> (job_state j = ''errored'' \<longrightarrow> getConclusion j = ''neutral'')
   \<and> (job_state j \<notin> {''passed'', ''failed'', ''canceled''} \<longrightarrow> getConclusion j = ''neutral'')"
  by (simp add: getConclusion_def)

theorem getConclusion_mapping_witness:
  "(job_state (ex_job ''passed'') = ''passed'' \<and> getConclusion (ex_job ''passed'') = ''success'')
   \<and> (job_state (ex_job ''failed'') = ''failed'' \<and> \<not> ignoreFailure (ex_job ''failed'')
      \<and> getConclusion (ex_job ''failed'') = ''failure'')
   \<and> (job_state (ex_job ''canceled'') = ''canceled'' \<and> getConclusion (ex_job ''canceled'') = ''cancelled'')
   \<and> (job_state ((ex_job ''failed'')\<lparr>ignoreFailure := True\<rparr>) = ''failed''
      \<and> ignoreFailure ((ex_job ''failed'')\<lparr>ignoreFailure := True\<rparr>)
      \<and> getConclusion ((ex_job ''failed'')\<lparr>ignoreFailure := True\<rparr>) = ''neutral'')
   \<and> (job_state (ex_job ''errored'') = ''errored'' \<and> getConclusion (ex_job ''errored'') = ''neutral'')
   \<and> (job_state (ex_job ''queued'') \<notin> {''passed'', ''failed'', ''canceled''}
      \<and> getConclusion (ex_job ''queued'') = ''neutral'')"
proof -
  have h1: "job_state (ex_job ''passed'') = ''passed''"
    and h2a: "job_state (ex_job ''failed'') = ''failed''"
    and h2b: "\<not> ignoreFailure (ex_job ''failed'')"
    and h3: "job_state (ex_job ''canceled'') = ''canceled''"
    and h4a: "job_state ((ex_job ''failed'')\<lparr>ignoreFailure := True\<rparr>) = ''failed''"
    and h4b: "ignoreFailure ((ex_job ''failed'')\<lparr>ignoreFailure := True\<rparr>)"
    and h5: "job_state (ex_job ''errored'') = ''errored''"
    and h6: "job_state (ex_job ''queued'') \<notin> {''passed'', ''failed'', ''canceled''}"
    by (simp_all add: ex_job_def)
  note c1 = getConclusion_mapping [THEN conjunct1, THEN mp, OF h1]
  note c2 = getConclusion_mapping [THEN conjunct2, THEN conjunct1, THEN mp, OF conjI, OF h2a h2b]
  note c3 = getConclusion_mapping [THEN conjunct2, THEN conjunct2, THEN conjunct1, THEN mp, OF h3]
  note c4 = getConclusion_mapping [THEN conjunct2, THEN conjunct2, THEN conjunct2, THEN conjunct1,
      THEN mp, OF conjI, OF h4a h4b]
  note c5 = getConclusion_mapping [THEN conjunct2, THEN conjunct2, THEN conjunct2, THEN conjunct2,
      THEN conjunct1, THEN mp, OF h5]
  note c6 = getConclusion_mapping [THEN conjunct2, THEN conjunct2, THEN conjunct2, THEN conjunct2,
      THEN conjunct2, THEN mp, OF h6]
  show ?thesis
    by (intro conjI h1 h2a h2b h3 h4a h4b h5 h6 c1 c2 c3 c4 c5 c6)
qed

subsection \<open>Diffing jobs against existing check runs\<close>

text \<open>
  C3. With the check runs fetched for the build, \<^verbatim>\<open>checksToCreate\<close> keeps exactly the
  jobs for which no existing check run matches, or for which the first matching check run
  (in fetched order) has a status other than the one derived from the job's state or a
  name other than the job's name. A check run matches a job when its external id is
  present, not empty, and the first three pieces of its split on the slash are the build's
  domain, the build's id and the job's id; further pieces are ignored. With exactly one
  existing check run that matches in identity, status and name, the result for that one
  job is the empty list.
\<close>

theorem checksToCreate_first_match_iff:
  assumes "result_of (getExistingChecks this) = Inr existingChecks"
  shows "(\<exists>create. result_of (checksToCreate this newJobs) = Inr create
            \<and> create = filter (\<lambda>j. (\<forall>c \<in> set existingChecks. \<not> isCheckForJob this c j)
                                     \<or> (\<exists>c. find (\<lambda>c. isCheckForJob this c j) existingChecks = Some c
                                             \<and> (getStatus j \<noteq> cr_status c \<or> job_name j \<noteq> cr_name c)))
                             newJobs)
         \<and> (isCheckForJob this c j \<longleftrightarrow>
              (\<exists>eid. cr_external_id c = Some eid \<and> eid \<noteq> []
                 \<and> take 3 (js_split CHR ''/'' eid)
                     = [bi_domain (buildInfo this), bi_id (buildInfo this), jobId j]))
         \<and> (find (\<lambda>c. isCheckForJob this c j) existingChecks = Some c \<and> cr_status c = getStatus j
              \<and> cr_name c = job_name j \<longrightarrow> result_of (checksToCreate this [j]) = Inr [])"
proof -
  have pred: "\<And>j. (case find (\<lambda>c. isCheckForJob this c j) existingChecks of
                      None \<Rightarrow> True
                    | Some c \<Rightarrow> getStatus j \<noteq> cr_status c \<or> job_name j \<noteq> cr_name c)
         = ((\<forall>c \<in> set existingChecks. \<not> isCheckForJob this c j)
              \<or> (\<exists>c. find (\<lambda>c. isCheckForJob this c j) existingChecks = Some c
                      \<and> (getStatus j \<noteq> cr_status c \<or> job_name j \<noteq> cr_name c)))"
    by (auto simp: find_None_iff dest: find_Some_set split: option.splits)
  have a: "result_of (checksToCreate this newJobs)
             = Inr (filter (\<lambda>j. (\<forall>c \<in> set existingChecks. \<not> isCheckForJob this c j)
                                     \<or> (\<exists>c. find (\<lambda>c. isCheckForJob this c j) existingChecks = Some c
                                             \<and> (getStatus j \<noteq> cr_status c \<or> job_name j \<noteq> cr_name c)))
                             newJobs)"
    using checksToCreate_result [OF assms, of newJobs]
    by (simp add: checksToCreate_loop_filter pred)
  have b: "find (\<lambda>c. isCheckForJob this c j) existingChecks = Some c \<and> cr_status c = getStatus j
              \<and> cr_name c = job_name j \<longrightarrow> result_of (checksToCreate this [j]) = Inr []"
    using checksToCreate_result [OF assms, of "[j]"] by auto
  show ?thesis using a b isCheckForJob_iff [of this c j] by blast
qed

theorem checksToCreate_first_match_iff_witness:
  "result_of (getExistingChecks (ex_github (ex_pages [ex_check ''ci/42/7'' ''in_progress'' None]) (Inr 5)))
     = Inr [ex_check ''ci/42/7'' ''in_progress'' None]
   \<and> find (\<lambda>c. isCheckForJob (ex_github (ex_pages [ex_check ''ci/42/7'' ''in_progress'' None]) (Inr 5))
                 c (ex_job ''started''))
        [ex_check ''ci/42/7'' ''in_progress'' None]
       = Some (ex_check ''ci/42/7'' ''in_progress'' None)
   \<and> cr_status (ex_check ''ci/42/7'' ''in_progress'' None) = getStatus (ex_job ''started'')
   \<and> cr_name (ex_check ''ci/42/7'' ''in_progress'' None) = job_name (ex_job ''started'')
   \<and> result_of (checksToCreate (ex_github (ex_pages [ex_check ''ci/42/7'' ''in_progress'' None]) (Inr 5))
        [ex_job ''started'']) = Inr []"
proof -
  have h: "result_of (getExistingChecks (ex_github (ex_pages [ex_check ''ci/42/7'' ''in_progress'' None]) (Inr 5)))
     = Inr [ex_check ''ci/42/7'' ''in_progress'' None]"
    by (simp add: result_of_def getExistingChecks_def io_defs paginate_def existing_callback_def
          ex_defs)
  have m: "find (\<lambda>c. isCheckForJob (ex_github (ex_pages [ex_check ''ci/42/7'' ''in_progress'' None]) (Inr 5))
                 c (ex_job ''started''))
        [ex_check ''ci/42/7'' ''in_progress'' None]
       = Some (ex_check ''ci/42/7'' ''in_progress'' None)"
    by (simp add: isCheckForJob_def at_index_def ex_defs)
  have s: "cr_status (ex_check ''ci/42/7'' ''in_progress'' None) = getStatus (ex_job ''started'')"
    and n: "cr_name (ex_check ''ci/42/7'' ''in_progress'' None) = job_name (ex_job ''started'')"
    by (simp_all add: getStatus_def FINISHED_STATES_def ex_defs)
  note c = checksToCreate_first_match_iff [OF h, THEN conjunct2, THEN conjunct2, THEN mp,
      OF conjI, OF m conjI, OF s n]
  show ?thesis
    by (intro conjI h m s n c)
qed

theorem checksToCreate_exact_split_counterexample:
  "result_of (getExistingChecks (ex_github (ex_pages [ex_check ''ci/42/7/x'' ''in_progress'' None]) (Inr 5)))
     = Inr [ex_check ''ci/42/7/x'' ''in_progress'' None]
   \<and> js_split CHR ''/'' ''ci/42/7/x'' \<noteq> [bi_domain ex_buildInfo, bi_id ex_buildInfo, jobId (ex_job ''started'')]
   \<and> result_of (checksToCreate (ex_github (ex_pages [ex_check ''ci/42/7/x'' ''in_progress'' None]) (Inr 5))
        [ex_job ''started'']) = Inr []"
  by (simp add: result_of_def checksToCreate_def getExistingChecks_def io_defs paginate_def
        existing_callback_def isCheckForJob_def at_index_def getStatus_def FINISHED_STATES_def
        ex_defs)

text \<open>
  C5. If fetching the existing check runs throws, the error is caught and logged, the
  existing collection is taken as empty, and \<^verbatim>\<open>checksToCreate\<close> returns exactly the
  input list, unchanged in order and contents.
\<close>

theorem checksToCreate_fail_open:
  assumes "result_of (paginate (existing_pages this) (existing_callback this) ()) = Inl e"
  shows "result_of (getExistingChecks this) = Inr []
         \<and> result_of (checksToCreate this jobs) = Inr jobs
         \<and> (e, ''Error occurred fetching existing checks for build '' @ bi_id (buildInfo this))
             \<in> set (error_logs (trace_of (checksToCreate this jobs)))"
proof -
  note run = getExistingChecks_throw_run [OF assms]
  have a: "result_of (getExistingChecks this) = Inr []"
    by (simp add: result_of_def run)
  have b: "result_of (checksToCreate this jobs) = Inr jobs"
    by (simp add: result_of_def checksToCreate_def bind_io_def return_io_def run
          checksToCreate_loop_filter)
  have c: "(e, ''Error occurred fetching existing checks for build '' @ bi_id (buildInfo this))
             \<in> set (error_logs (trace_of (checksToCreate this jobs)))"
    by (simp add: trace_of_def checksToCreate_def bind_io_def return_io_def run)
  show ?thesis
    using a b c by blast
qed

theorem checksToCreate_fail_open_witness:
  "result_of (paginate
       (existing_pages (ex_github (Inr \<lparr>check_runs = [ex_check ''ci/42/7'' ''in_progress'' None]\<rparr>,
                                   [Inl (Error ''rate limit'')]) (Inr 5)))
       (existing_callback (ex_github (Inr \<lparr>check_runs = [ex_check ''ci/42/7'' ''in_progress'' None]\<rparr>,
                                      [Inl (Error ''rate limit'')]) (Inr 5))) ())
     = Inl (Error ''rate limit'')
   \<and> result_of (checksToCreate
        (ex_github (Inr \<lparr>check_runs = [ex_check ''ci/42/7'' ''in_progress'' None]\<rparr>,
                    [Inl (Error ''rate limit'')]) (Inr 5))
        [ex_job ''started'', ex_job ''passed''])
     = Inr [ex_job ''started'', ex_job ''passed'']"
proof -
  have h: "result_of (paginate
       (existing_pages (ex_github (Inr \<lparr>check_runs = [ex_check ''ci/42/7'' ''in_progress'' None]\<rparr>,
                                   [Inl (Error ''rate limit'')]) (Inr 5)))
       (existing_callback (ex_github (Inr \<lparr>check_runs = [ex_check ''ci/42/7'' ''in_progress'' None]\<rparr>,
                                      [Inl (Error ''rate limit'')]) (Inr 5))) ())
     = Inl (Error ''rate limit'')"
    by (simp add: result_of_def paginate_def existing_callback_def ex_github_def)
  note c = checksToCreate_fail_open [OF h, THEN conjunct2, THEN conjunct1,
      of "[ex_job ''started'', ex_job ''passed'']"]
  show ?thesis
    by (intro conjI h c)
qed

text \<open>
  C6. The list returned by \<^verbatim>\<open>checksToCreate\<close> is a subsequence of its input: only
  elements of the input, each occurrence at most once, in the input's relative order.
\<close>

theorem checksToCreate_subseq:
  "\<exists>create. result_of (checksToCreate this newJobs) = Inr create \<and> subseq create newJobs"
proof -
  obtain existingChecks where e: "result_of (getExistingChecks this) = Inr existingChecks"
    using getExistingChecks_returns by blast
  have "result_of (checksToCreate this newJobs)
          = Inr (checksToCreate_loop this existingChecks newJobs [])"
    by (rule checksToCreate_result [OF e])
  moreover have "subseq (checksToCreate_loop this existingChecks newJobs []) newJobs"
    by (simp add: checksToCreate_loop_filter)
  ultimately show ?thesis by blast
qed

text \<open>
  C10. An existing check run is compared to a job by derived status and name only, never
  by conclusion: a completed job whose matching check run has status completed and the
  job's name is left out of the result whatever conclusion the check run has, and changing
  the conclusions of the existing check runs does not change the result. An existing check
  run whose external id is missing or empty matches no job.
\<close>

theorem checksToCreate_ignores_conclusion:
  assumes "result_of (getExistingChecks this) = Inr existingChecks"
  shows "(\<exists>create. result_of (checksToCreate this newJobs) = Inr create
            \<and> (find (\<lambda>c. isCheckForJob this c j) existingChecks = Some c
                 \<and> getStatus j = ''completed'' \<and> cr_status c = ''completed''
                 \<and> cr_name c = job_name j \<longrightarrow> j \<notin> set create)
            \<and> create = checksToCreate_loop this
                         (map (\<lambda>c. c\<lparr>cr_conclusion := f c\<rparr>) existingChecks) newJobs [])
         \<and> (cr_external_id c' = None \<or> cr_external_id c' = Some [] \<longrightarrow> \<not> isCheckForJob this c' j')"
proof -
  have r: "result_of (checksToCreate this newJobs)
             = Inr (checksToCreate_loop this existingChecks newJobs [])"
    by (rule checksToCreate_result [OF assms])
  have a: "find (\<lambda>c. isCheckForJob this c j) existingChecks = Some c
                 \<and> getStatus j = ''completed'' \<and> cr_status c = ''completed''
                 \<and> cr_name c = job_name j
           \<longrightarrow> j \<notin> set (checksToCreate_loop this existingChecks newJobs [])"
    using checksToCreate_loop_excluded [of this j existingChecks c newJobs] by simp
  have b: "checksToCreate_loop this existingChecks newJobs []
             = checksToCreate_loop this
                 (map (\<lambda>c. c\<lparr>cr_conclusion := f c\<rparr>) existingChecks) newJobs []"
    by (simp add: checksToCreate_loop_conclusion)
  have c: "cr_external_id c' = None \<or> cr_external_id c' = Some [] \<longrightarrow> \<not> isCheckForJob this c' j'"
    by (auto simp: isCheckForJob_def)
  show ?thesis
    using r a b c by blast
qed

theorem checksToCreate_ignores_conclusion_witness:
  "result_of (getExistingChecks
       (ex_github (ex_pages [ex_check ''ci/42/7'' ''completed'' (Some ''failure'')]) (Inr 5)))
     = Inr [ex_check ''ci/42/7'' ''completed'' (Some ''failure'')]
   \<and> (find (\<lambda>c. isCheckForJob
                   (ex_github (ex_pages [ex_check ''ci/42/7'' ''completed'' (Some ''failure'')]) (Inr 5))
                   c (ex_job ''passed''))
             [ex_check ''ci/42/7'' ''completed'' (Some ''failure'')]
           = Some (ex_check ''ci/42/7'' ''completed'' (Some ''failure''))
         \<and> getStatus (ex_job ''passed'') = ''completed''
         \<and> cr_status (ex_check ''ci/42/7'' ''completed'' (Some ''failure'')) = ''completed''
         \<and> cr_name (ex_check ''ci/42/7'' ''completed'' (Some ''failure'')) = job_name (ex_job ''passed''))
   \<and> getConclusion (ex_job ''passed'') = ''success''
   \<and> (\<exists>create. result_of (checksToCreate
          (ex_github (ex_pages [ex_check ''ci/42/7'' ''completed'' (Some ''failure'')]) (Inr 5))
          [ex_job ''passed'']) = Inr create \<and> ex_job ''passed'' \<notin> set create)
   \<and> (cr_external_id (ex_check [] ''completed'' None) = Some []
        \<and> \<not> isCheckForJob
             (ex_github (ex_pages [ex_check ''ci/42/7'' ''completed'' (Some ''failure'')]) (Inr 5))
             (ex_check [] ''completed'' None) (ex_job ''passed''))"
proof -
  have h: "result_of (getExistingChecks
       (ex_github (ex_pages [ex_check ''ci/42/7'' ''completed'' (Some ''failure'')]) (Inr 5)))
     = Inr [ex_check ''ci/42/7'' ''completed'' (Some ''failure'')]"
    by (simp add: result_of_def getExistingChecks_def io_defs paginate_def existing_callback_def
          ex_defs)
  have g: "getConclusion (ex_job ''passed'') = ''success''"
    by (simp add: getConclusion_def ex_job_def)
  have m: "find (\<lambda>c. isCheckForJob
                   (ex_github (ex_pages [ex_check ''ci/42/7'' ''completed'' (Some ''failure'')]) (Inr 5))
                   c (ex_job ''passed''))
             [ex_check ''ci/42/7'' ''completed'' (Some ''failure'')]
           = Some (ex_check ''ci/42/7'' ''completed'' (Some ''failure''))
         \<and> getStatus (ex_job ''passed'') = ''completed''
         \<and> cr_status (ex_check ''ci/42/7'' ''completed'' (Some ''failure'')) = ''completed''
         \<and> cr_name (ex_check ''ci/42/7'' ''completed'' (Some ''failure'')) = job_name (ex_job ''passed'')"
    by (simp add: isCheckForJob_def at_index_def getStatus_def FINISHED_STATES_def ex_defs)
  obtain create where
    r: "result_of (checksToCreate
          (ex_github (ex_pages [ex_check ''ci/42/7'' ''completed'' (Some ''failure'')]) (Inr 5))
          [ex_job ''passed'']) = Inr create"
    and ex: "find (\<lambda>c. isCheckForJob
                   (ex_github (ex_pages [ex_check ''ci/42/7'' ''completed'' (Some ''failure'')]) (Inr 5))
                   c (ex_job ''passed''))
             [ex_check ''ci/42/7'' ''completed'' (Some ''failure'')]
           = Some (ex_check ''ci/42/7'' ''completed'' (Some ''failure''))
         \<and> getStatus (ex_job ''passed'') = ''completed''
         \<and> cr_status (ex_check ''ci/42/7'' ''completed'' (Some ''failure'')) = ''completed''
         \<and> cr_name (ex_check ''ci/42/7'' ''completed'' (Some ''failure'')) = job_name (ex_job ''passed'')
         \<longrightarrow> ex_job ''passed'' \<notin> set create"
    using checksToCreate_ignores_conclusion [OF h, THEN conjunct1,
        of "[ex_job ''passed'']" "ex_job ''passed''" "ex_check ''ci/42/7'' ''completed'' (Some ''failure'')"
           "\<lambda>c. None"]
    by (elim exE conjE)
  note notin = ex [THEN mp, OF m]
  have e: "\<exists>create. result_of (checksToCreate
          (ex_github (ex_pages [ex_check ''ci/42/7'' ''completed'' (Some ''failure'')]) (Inr 5))
          [ex_job ''passed'']) = Inr create \<and> ex_job ''passed'' \<notin> set create"
    by (rule exI [of _ create], rule conjI, rule r, rule notin)
  have k: "cr_external_id (ex_check [] ''completed'' None) = Some []"
    by (simp add: ex_check_def)
  note n = checksToCreate_ignores_conclusion [OF h, THEN conjunct2, THEN mp, OF disjI2, OF k]
  show ?thesis
    by (intro conjI h m [THEN conjunct1] m [THEN conjunct2, THEN conjunct1]
          m [THEN conjunct2, THEN conjunct2, THEN conjunct1]
          m [THEN conjunct2, THEN conjunct2, THEN conjunct2] g e k n)
qed

subsection \<open>Creating a check run\<close>

text \<open>
  C4. The payload that \<^verbatim>\<open>createCheck\<close> sends to the create call has the external id
  domain, slash, build id, slash, job id, built from the instance's build and the job. For
  the build with domain ci and id 42 and the job with id 7 in state started, the payload
  has external id ci/42/7, status in_progress, and no conclusion, completion time or
  output.
\<close>

theorem createCheck_external_id:
  "\<exists>p. created_payloads (trace_of (createCheck this jobInfo)) = [p]
      \<and> external_id p
          = bi_domain (buildInfo this) @ ''/'' @ bi_id (buildInfo this) @ ''/'' @ jobId jobInfo
      \<and> (bi_domain (buildInfo this) = ''ci'' \<and> bi_id (buildInfo this) = ''42''
           \<and> jobId jobInfo = ''7'' \<and> job_state jobInfo = ''started''
          \<longrightarrow> external_id p = ''ci/42/7'' \<and> cp_status p = ''in_progress''
              \<and> conclusion p = None \<and> completed_at p = None \<and> cp_output p = None)"
proof -
  obtain p pre where
    run: "createCheck this jobInfo [] =
       (case checks_create (client this) p of
          Inr n \<Rightarrow> (Inr (Some (toString n)),
                    [] @ pre @ [LogDebug (''Creating check for job '' @ jobId jobInfo) (Some p),
                                ChecksCreateCall p,
                                LogDebug (''Check '' @ toString n @ '' created for job '' @ jobId jobInfo) None])
        | Inl e \<Rightarrow> (Inr None,
                    [] @ pre @ [LogDebug (''Creating check for job '' @ jobId jobInfo) (Some p),
                                ChecksCreateCall p,
                                LogError e (''Error occurred creating check for job '' @ jobId jobInfo)]))"
    and pre: "created_payloads pre = []"
    and eid: "external_id p = external_id (getChecksCreateParams this jobInfo)"
    and st: "cp_status p = getStatus jobInfo"
    and same: "getStatus jobInfo \<noteq> ''completed'' \<longrightarrow> pre = [] \<and> p = getChecksCreateParams this jobInfo"
    using createCheck_run [of this jobInfo "[]"] by blast
  have one: "created_payloads (trace_of (createCheck this jobInfo)) = [p]"
    by (cases "checks_create (client this) p")
       (simp_all add: trace_of_def run created_payloads_append pre)
  have id: "external_id p
          = bi_domain (buildInfo this) @ ''/'' @ bi_id (buildInfo this) @ ''/'' @ jobId jobInfo"
    by (simp add: eid getChecksCreateParams_def)
  have ex: "external_id p = ''ci/42/7'' \<and> cp_status p = ''in_progress''
              \<and> conclusion p = None \<and> completed_at p = None \<and> cp_output p = None"
    if h: "bi_domain (buildInfo this) = ''ci'' \<and> bi_id (buildInfo this) = ''42''
           \<and> jobId jobInfo = ''7'' \<and> job_state jobInfo = ''started''"
  proof -
    have s: "getStatus jobInfo = ''in_progress''"
      using h by (simp add: getStatus_def FINISHED_STATES_def)
    then have "p = getChecksCreateParams this jobInfo"
      using same by simp
    then show ?thesis
      using h s by (simp add: getChecksCreateParams_def)
  qed
  show ?thesis
    using one id ex by blast
qed

theorem createCheck_external_id_witness:
  "bi_domain (buildInfo (ex_github (ex_pages []) (Inr 1234))) = ''ci''
   \<and> bi_id (buildInfo (ex_github (ex_pages []) (Inr 1234))) = ''42''
   \<and> jobId (ex_job ''started'') = ''7'' \<and> job_state (ex_job ''started'') = ''started''
   \<and> (\<exists>p. created_payloads (trace_of (createCheck (ex_github (ex_pages []) (Inr 1234)) (ex_job ''started''))) = [p]
          \<and> external_id p = ''ci/42/7'' \<and> cp_status p = ''in_progress''
          \<and> conclusion p = None \<and> completed_at p = None \<and> cp_output p = None)"
proof -
  have h: "bi_domain (buildInfo (ex_github (ex_pages []) (Inr 1234))) = ''ci''
           \<and> bi_id (buildInfo (ex_github (ex_pages []) (Inr 1234))) = ''42''
           \<and> jobId (ex_job ''started'') = ''7'' \<and> job_state (ex_job ''started'') = ''started''"
    by (simp add: ex_defs)
  obtain p where
    one: "created_payloads (trace_of (createCheck (ex_github (ex_pages []) (Inr 1234)) (ex_job ''started''))) = [p]"
    and imp: "bi_domain (buildInfo (ex_github (ex_pages []) (Inr 1234))) = ''ci''
           \<and> bi_id (buildInfo (ex_github (ex_pages []) (Inr 1234))) = ''42''
           \<and> jobId (ex_job ''started'') = ''7'' \<and> job_state (ex_job ''started'') = ''started''
          \<longrightarrow> external_id p = ''ci/42/7'' \<and> cp_status p = ''in_progress''
              \<and> conclusion p = None \<and> completed_at p = None \<and> cp_output p = None"
    using createCheck_external_id [of "ex_github (ex_pages []) (Inr 1234)" "ex_job ''started''"]
    by (elim exE conjE)
  note c = imp [THEN mp, OF h]
  have "\<exists>p. created_payloads (trace_of (createCheck (ex_github (ex_pages []) (Inr 1234)) (ex_job ''started''))) = [p]
          \<and> external_id p = ''ci/42/7'' \<and> cp_status p = ''in_progress''
          \<and> conclusion p = None \<and> completed_at p = None \<and> cp_output p = None"
    by (rule exI [of _ p], rule conjI, rule one, rule c)
  then show ?thesis
    using h by (intro conjI) simp_all
qed

text \<open>
  C7. For a job in state canceled, \<^verbatim>\<open>createCheck\<close> never calls the injected
  \<^verbatim>\<open>getJobOutput\<close>: the payload gets the conclusion cancelled and the completion time,
  and carries no output.
\<close>

theorem createCheck_canceled_no_output_fetch:
  assumes "job_state jobInfo = ''canceled''"
  shows "output_fetches (trace_of (createCheck this jobInfo)) = []
         \<and> (\<exists>p. created_payloads (trace_of (createCheck this jobInfo)) = [p]
                \<and> conclusion p = Some ''cancelled''
                \<and> completed_at p = Some (finishedAt jobInfo)
                \<and> cp_output p = None)"
proof -
  have s: "getStatus jobInfo = ''completed''"
    using assms by (simp add: getStatus_def FINISHED_STATES_def)
  have c: "getConclusion jobInfo = ''cancelled''"
    using assms by (simp add: getConclusion_def)
  obtain p pre where
    run: "createCheck this jobInfo [] =
       (case checks_create (client this) p of
          Inr n \<Rightarrow> (Inr (Some (toString n)),
                    [] @ pre @ [LogDebug (''Creating check for job '' @ jobId jobInfo) (Some p),
                                ChecksCreateCall p,
                                LogDebug (''Check '' @ toString n @ '' created for job '' @ jobId jobInfo) None])
        | Inl e \<Rightarrow> (Inr None,
                    [] @ pre @ [LogDebug (''Creating check for job '' @ jobId jobInfo) (Some p),
                                ChecksCreateCall p,
                                LogError e (''Error occurred creating check for job '' @ jobId jobInfo)]))"
    and compl: "getStatus jobInfo = ''completed'' \<longrightarrow>
           conclusion p = Some (getConclusion jobInfo) \<and> completed_at p = Some (finishedAt jobInfo)"
    and canc: "getStatus jobInfo = ''completed'' \<and> getConclusion jobInfo = ''cancelled'' \<longrightarrow>
           pre = [] \<and> cp_output p = None"
    using createCheck_run [of this jobInfo "[]"] by blast
  have pre: "pre = []" and out: "cp_output p = None"
    using canc s c by simp_all
  have f: "output_fetches (trace_of (createCheck this jobInfo)) = []"
    by (cases "checks_create (client this) p") (simp_all add: trace_of_def run pre)
  have one: "created_payloads (trace_of (createCheck this jobInfo)) = [p]"
    by (cases "checks_create (client this) p") (simp_all add: trace_of_def run pre)
  have fields: "conclusion p = Some ''cancelled'' \<and> completed_at p = Some (finishedAt jobInfo)"
    using compl s c by simp
  show ?thesis
    using f one fields out by blast
qed

theorem createCheck_canceled_no_output_fetch_witness:
  "job_state (ex_job ''canceled'') = ''canceled''
   \<and> getJobOutput ((ex_github (ex_pages []) (Inr 1234))\<lparr>getJobOutput := (\<lambda>_. Inr (Some ex_output))\<rparr>)
        (ex_job ''canceled'') = Inr (Some ex_output)
   \<and> output_fetches (trace_of (createCheck
        ((ex_github (ex_pages []) (Inr 1234))\<lparr>getJobOutput := (\<lambda>_. Inr (Some ex_output))\<rparr>)
        (ex_job ''canceled''))) = []"
proof -
  have h: "job_state (ex_job ''canceled'') = ''canceled''"
    by (simp add: ex_job_def)
  have g: "getJobOutput ((ex_github (ex_pages []) (Inr 1234))\<lparr>getJobOutput := (\<lambda>_. Inr (Some ex_output))\<rparr>)
        (ex_job ''canceled'') = Inr (Some ex_output)"
    by simp
  note c = createCheck_canceled_no_output_fetch [OF h, THEN conjunct1]
  show ?thesis
    by (intro conjI h g c)
qed

text \<open>
  C9. \<^verbatim>\<open>createCheck\<close> never throws. The create call is made exactly once; when it
  succeeds the result is the created check run's numeric identifier as a string; when it
  fails the error is logged with the job id and the result is undefined.
\<close>

theorem createCheck_never_throws:
  "\<exists>p. created_payloads (trace_of (createCheck this jobInfo)) = [p]
      \<and> (\<exists>v. result_of (createCheck this jobInfo) = Inr v)
      \<and> (\<forall>n. checks_create (client this) p = Inr n
             \<longrightarrow> result_of (createCheck this jobInfo) = Inr (Some (toString n)))
      \<and> (\<forall>e. checks_create (client this) p = Inl e
             \<longrightarrow> result_of (createCheck this jobInfo) = Inr None
                 \<and> (e, ''Error occurred creating check for job '' @ jobId jobInfo)
                     \<in> set (error_logs (trace_of (createCheck this jobInfo))))"
proof -
  obtain p pre where
    run: "createCheck this jobInfo [] =
       (case checks_create (client this) p of
          Inr n \<Rightarrow> (Inr (Some (toString n)),
                    [] @ pre @ [LogDebug (''Creating check for job '' @ jobId jobInfo) (Some p),
                                ChecksCreateCall p,
                                LogDebug (''Check '' @ toString n @ '' created for job '' @ jobId jobInfo) None])
        | Inl e \<Rightarrow> (Inr None,
                    [] @ pre @ [LogDebug (''Creating check for job '' @ jobId jobInfo) (Some p),
                                ChecksCreateCall p,
                                LogError e (''Error occurred creating check for job '' @ jobId jobInfo)]))"
    and pre: "created_payloads pre = []"
    using createCheck_run [of this jobInfo "[]"] by blast
  have one: "created_payloads (trace_of (createCheck this jobInfo)) = [p]"
    by (cases "checks_create (client this) p")
       (simp_all add: trace_of_def run created_payloads_append pre)
  have nothrow: "\<exists>v. result_of (createCheck this jobInfo) = Inr v"
    by (cases "checks_create (client this) p") (simp_all add: result_of_def run)
  have ok: "\<forall>n. checks_create (client this) p = Inr n
             \<longrightarrow> result_of (createCheck this jobInfo) = Inr (Some (toString n))"
    by (simp add: result_of_def run)
  have bad: "\<forall>e. checks_create (client this) p = Inl e
             \<longrightarrow> result_of (createCheck this jobInfo) = Inr None
                 \<and> (e, ''Error occurred creating check for job '' @ jobId jobInfo)
                     \<in> set (error_logs (trace_of (createCheck this jobInfo)))"
    by (simp add: result_of_def trace_of_def run error_logs_append)
  show ?thesis
    using one nothrow ok bad by blast
qed

theorem createCheck_never_throws_witness:
  "(\<exists>p. checks_create (client (ex_github (ex_pages []) (Inr 1234))) p = Inr 1234
        \<and> created_payloads (trace_of (createCheck (ex_github (ex_pages []) (Inr 1234)) (ex_job ''passed''))) = [p])
   \<and> result_of (createCheck (ex_github (ex_pages []) (Inr 1234)) (ex_job ''passed'')) = Inr (Some ''1234'')
   \<and> (\<exists>p. checks_create (client (ex_github (ex_pages []) (Inl (Error ''boom'')))) p = Inl (Error ''boom'')
        \<and> created_payloads (trace_of (createCheck (ex_github (ex_pages []) (Inl (Error ''boom''))) (ex_job ''passed''))) = [p])
   \<and> result_of (createCheck (ex_github (ex_pages []) (Inl (Error ''boom''))) (ex_job ''passed'')) = Inr None
   \<and> (Error ''boom'', ''Error occurred creating check for job 7'')
        \<in> set (error_logs (trace_of (createCheck (ex_github (ex_pages []) (Inl (Error ''boom''))) (ex_job ''passed''))))"
proof -
  obtain p where
    one: "created_payloads (trace_of (createCheck (ex_github (ex_pages []) (Inr 1234)) (ex_job ''passed''))) = [p]"
    and ok: "\<forall>n. checks_create (client (ex_github (ex_pages []) (Inr 1234))) p = Inr n
             \<longrightarrow> result_of (createCheck (ex_github (ex_pages []) (Inr 1234)) (ex_job ''passed''))
                   = Inr (Some (toString n))"
    using createCheck_never_throws [of "ex_github (ex_pages []) (Inr 1234)" "ex_job ''passed''"]
    by (elim exE conjE)
  have h: "checks_create (client (ex_github (ex_pages []) (Inr 1234))) p = Inr 1234"
    by (simp add: ex_github_def)
  have d: "toString 1234 = ''1234''"
    by (simp add: toString.simps digit_char_def)
  have r: "result_of (createCheck (ex_github (ex_pages []) (Inr 1234)) (ex_job ''passed'')) = Inr (Some ''1234'')"
    using ok [THEN spec, THEN mp, OF h] by (simp only: d)
  obtain q where
    one': "created_payloads (trace_of (createCheck (ex_github (ex_pages []) (Inl (Error ''boom''))) (ex_job ''passed''))) = [q]"
    and bad: "\<forall>e. checks_create (client (ex_github (ex_pages []) (Inl (Error ''boom'')))) q = Inl e
             \<longrightarrow> result_of (createCheck (ex_github (ex_pages []) (Inl (Error ''boom''))) (ex_job ''passed'')) = Inr None
                 \<and> (e, ''Error occurred creating check for job '' @ jobId (ex_job ''passed''))
                     \<in> set (error_logs (trace_of (createCheck (ex_github (ex_pages []) (Inl (Error ''boom''))) (ex_job ''passed''))))"
    using createCheck_never_throws [of "ex_github (ex_pages []) (Inl (Error ''boom''))" "ex_job ''passed''"]
    by (elim exE conjE)
  have h': "checks_create (client (ex_github (ex_pages []) (Inl (Error ''boom'')))) q = Inl (Error ''boom'')"
    by (simp add: ex_github_def)
  have m: "''Error occurred creating check for job '' @ jobId (ex_job ''passed'')
             = ''Error occurred creating check for job 7''"
    by (simp add: ex_job_def)
  note b = bad [THEN spec, THEN mp, OF h', unfolded m]
  have e1: "\<exists>p. checks_create (client (ex_github (ex_pages []) (Inr 1234))) p = Inr 1234
        \<and> created_payloads (trace_of (createCheck (ex_github (ex_pages []) (Inr 1234)) (ex_job ''passed''))) = [p]"
    by (rule exI [of _ p], rule conjI, rule h, rule one)
  have e2: "\<exists>p. checks_create (client (ex_github (ex_pages []) (Inl (Error ''boom'')))) p = Inl (Error ''boom'')
        \<and> created_payloads (trace_of (createCheck (ex_github (ex_pages []) (Inl (Error ''boom''))) (ex_job ''passed''))) = [p]"
    by (rule exI [of _ q], rule conjI, rule h', rule one')
  show ?thesis
    by (intro conjI e1 r e2 b [THEN conjunct1] b [THEN conjunct2])
qed

subsection \<open>Latest Travis status of a pull request\<close>

text \<open>
  C8. \<^verbatim>\<open>getLatestTravisStatus\<close> never throws, and it returns undefined when the
  pull-request request throws, when the pull request has no head commit, when every
  status page arrives and no status on any page has the context
  continuous-integration/travis-ci/pr, and when a page request throws before a status
  with that context was seen. Otherwise, on the first page that has such a status, it
  returns the repository, the head commit's sha and the target URL of the first such
  status of that page.
\<close>

theorem getLatestTravisStatus_result:
  "(\<exists>v. result_of (getLatestTravisStatus context ic) = Inr v)
   \<and> (fetched_pull_request context ic = Inl e
        \<longrightarrow> result_of (getLatestTravisStatus context ic) = Inr None)
   \<and> (fetched_pull_request context ic = Inr pr \<and> pr_head pr = None
        \<longrightarrow> result_of (getLatestTravisStatus context ic) = Inr None)
   \<and> (fetched_pull_request context ic = Inr pr \<and> pr_head pr = Some head
        \<and> (\<forall>page \<in> set pre. \<forall>status \<in> set page. \<not> is_travis status)
        \<longrightarrow> (status_pages context ic head = map Inr pre
               \<longrightarrow> result_of (getLatestTravisStatus context ic) = Inr None)
            \<and> (status_pages context ic head = map Inr pre @ Inl e' # post
               \<longrightarrow> result_of (getLatestTravisStatus context ic) = Inr None)
            \<and> (status_pages context ic head = map Inr pre @ Inr page # post
                 \<and> find is_travis page = Some status
               \<longrightarrow> result_of (getLatestTravisStatus context ic)
                     = Inr (Some \<lparr>si_repository = ic_repository ic,
                                  si_sha = head_commit_sha head,
                                  si_target_url = st_target_url status\<rparr>)))"
proof -
  note u = getLatestTravisStatus_unfold [of "context" ic]
  have a: "\<exists>v. result_of (getLatestTravisStatus context ic) = Inr v"
    using u by blast
  have b: "fetched_pull_request context ic = Inl e
        \<longrightarrow> result_of (getLatestTravisStatus context ic) = Inr None"
    by (simp add: u)
  have c: "fetched_pull_request context ic = Inr pr \<and> pr_head pr = None
        \<longrightarrow> result_of (getLatestTravisStatus context ic) = Inr None"
    by (simp add: u)
  have d: "(status_pages context ic head = map Inr pre
               \<longrightarrow> result_of (getLatestTravisStatus context ic) = Inr None)
            \<and> (status_pages context ic head = map Inr pre @ Inl e' # post
               \<longrightarrow> result_of (getLatestTravisStatus context ic) = Inr None)
            \<and> (status_pages context ic head = map Inr pre @ Inr page # post
                 \<and> find is_travis page = Some status
               \<longrightarrow> result_of (getLatestTravisStatus context ic)
                     = Inr (Some \<lparr>si_repository = ic_repository ic,
                                  si_sha = head_commit_sha head,
                                  si_target_url = st_target_url status\<rparr>))"
    if h: "fetched_pull_request context ic = Inr pr" "pr_head pr = Some head"
      and no: "\<forall>page \<in> set pre. \<forall>status \<in> set page. \<not> is_travis status"
  proof (intro conjI impI)
    assume p: "status_pages context ic head = map Inr pre"
    have "paginate_loop travis_callback (map Inr pre @ []) [] None
            = paginate_loop travis_callback [] [] None"
      by (rule travis_skip [OF no])
    then have "fst (paginate_loop travis_callback (status_pages context ic head) [] None [])
                 = Inr ([], None)"
      by (simp add: p return_io_def)
    then show "result_of (getLatestTravisStatus context ic) = Inr None"
      using h by (simp add: u)
  next
    assume p: "status_pages context ic head = map Inr pre @ Inl e' # post"
    have "paginate_loop travis_callback (map Inr pre @ Inl e' # post) [] None
            = paginate_loop travis_callback (Inl e' # post) [] None"
      by (rule travis_skip [OF no])
    then have "fst (paginate_loop travis_callback (status_pages context ic head) [] None [])
                 = Inl e'"
      by (simp add: p)
    then show "result_of (getLatestTravisStatus context ic) = Inr None"
      using h by (simp add: u)
  next
    assume "status_pages context ic head = map Inr pre @ Inr page # post
              \<and> find is_travis page = Some status"
    then have p: "status_pages context ic head = map Inr pre @ Inr page # post"
      and f: "find is_travis page = Some status"
      by simp_all
    have "paginate_loop travis_callback (map Inr pre @ Inr page # post) [] None
            = paginate_loop travis_callback (Inr page # post) [] None"
      by (rule travis_skip [OF no])
    then have "fst (paginate_loop travis_callback (status_pages context ic head) [] None [])
                 = Inr ([], Some status)"
      by (simp add: p f travis_callback_def return_io_def)
    then show "result_of (getLatestTravisStatus context ic)
                 = Inr (Some \<lparr>si_repository = ic_repository ic,
                              si_sha = head_commit_sha head,
                              si_target_url = st_target_url status\<rparr>)"
      using h by (simp add: u)
  qed
  show ?thesis
  proof (intro conjI)
    show "\<exists>v. result_of (getLatestTravisStatus context ic) = Inr v" by (rule a)
  next
    show "fetched_pull_request context ic = Inl e
        \<longrightarrow> result_of (getLatestTravisStatus context ic) = Inr None" by (rule b)
  next
    show "fetched_pull_request context ic = Inr pr \<and> pr_head pr = None
        \<longrightarrow> result_of (getLatestTravisStatus context ic) = Inr None" by (rule c)
  next
    show "fetched_pull_request context ic = Inr pr \<and> pr_head pr = Some head
        \<and> (\<forall>page \<in> set pre. \<forall>status \<in> set page. \<not> is_travis status)
        \<longrightarrow> (status_pages context ic head = map Inr pre
               \<longrightarrow> result_of (getLatestTravisStatus context ic) = Inr None)
            \<and> (status_pages context ic head = map Inr pre @ Inl e' # post
               \<longrightarrow> result_of (getLatestTravisStatus context ic) = Inr None)
            \<and> (status_pages context ic head = map Inr pre @ Inr page # post
                 \<and> find is_travis page = Some status
               \<longrightarrow> result_of (getLatestTravisStatus context ic)
                     = Inr (Some \<lparr>si_repository = ic_repository ic,
                                  si_sha = head_commit_sha head,
                                  si_target_url = st_target_url status\<rparr>))"
      by (rule impI, elim conjE, rule d)
  qed
qed

theorem getLatestTravisStatus_result_witness:
  "(fetched_pull_request (ex_context (Inl (Error ''not found'')) (Inr [], [])) ex_issueComment
      = Inl (Error ''not found'')
    \<and> result_of (getLatestTravisStatus (ex_context (Inl (Error ''not found'')) (Inr [], []))
         ex_issueComment) = Inr None)
   \<and> (fetched_pull_request (ex_context (Inr \<lparr>pr_head = None\<rparr>) (Inr [], [])) ex_issueComment
      = Inr \<lparr>pr_head = None\<rparr>
    \<and> pr_head \<lparr>pr_head = None\<rparr> = None
    \<and> result_of (getLatestTravisStatus (ex_context (Inr \<lparr>pr_head = None\<rparr>) (Inr [], []))
         ex_issueComment) = Inr None)
   \<and> result_of (getLatestTravisStatus
        (ex_context (Inr ex_pullRequest)
           (Inr [ex_status ''ci/other'' ''u1''], [Inr [ex_status ''ci/lint'' ''u2'']]))
        ex_issueComment) = Inr None
   \<and> result_of (getLatestTravisStatus
        (ex_context (Inr ex_pullRequest)
           (Inr [ex_status ''ci/other'' ''u1''],
            [Inl (Error ''rate limit''),
             Inr [ex_status ''continuous-integration/travis-ci/pr'' ''u3'']]))
        ex_issueComment) = Inr None
   \<and> result_of (getLatestTravisStatus
        (ex_context (Inr ex_pullRequest)
           (Inr [ex_status ''ci/other'' ''u1''],
            [Inr [ex_status ''ci/lint'' ''u2'',
                  ex_status ''continuous-integration/travis-ci/pr'' ''u3'',
                  ex_status ''continuous-integration/travis-ci/pr'' ''u4''],
             Inl (Error ''rate limit'')]))
        ex_issueComment)
      = Inr (Some \<lparr>si_repository = ic_repository ex_issueComment,
                   si_sha = ''abc'', si_target_url = ''u3''\<rparr>)"
proof -
  have h1: "fetched_pull_request (ex_context (Inl (Error ''not found'')) (Inr [], [])) ex_issueComment
      = Inl (Error ''not found'')"
    by (simp add: ex_context_def)
  note c1 = getLatestTravisStatus_result [THEN conjunct2, THEN conjunct1, THEN mp, OF h1]
  have h2: "fetched_pull_request (ex_context (Inr \<lparr>pr_head = None\<rparr>) (Inr [], [])) ex_issueComment
      = Inr \<lparr>pr_head = None\<rparr>"
    and h2': "pr_head \<lparr>pr_head = None\<rparr> = None"
    by (simp_all add: ex_context_def)
  note c2 = getLatestTravisStatus_result [THEN conjunct2, THEN conjunct2, THEN conjunct1, THEN mp,
      OF conjI, OF h2 h2']
  have c3: "result_of (getLatestTravisStatus
        (ex_context (Inr ex_pullRequest)
           (Inr [ex_status ''ci/other'' ''u1''], [Inr [ex_status ''ci/lint'' ''u2'']]))
        ex_issueComment) = Inr None"
    using getLatestTravisStatus_result [THEN conjunct2, THEN conjunct2, THEN conjunct2,
        of "ex_context (Inr ex_pullRequest)
              (Inr [ex_status ''ci/other'' ''u1''], [Inr [ex_status ''ci/lint'' ''u2'']])"
           ex_issueComment ex_pullRequest "\<lparr>head_commit_sha = ''abc''\<rparr>"
           "[[ex_status ''ci/other'' ''u1''], [ex_status ''ci/lint'' ''u2'']]"]
    by (simp add: ex_context_def ex_pullRequest_def ex_status_def)
  have c4: "result_of (getLatestTravisStatus
        (ex_context (Inr ex_pullRequest)
           (Inr [ex_status ''ci/other'' ''u1''],
            [Inl (Error ''rate limit''),
             Inr [ex_status ''continuous-integration/travis-ci/pr'' ''u3'']]))
        ex_issueComment) = Inr None"
    using getLatestTravisStatus_result [THEN conjunct2, THEN conjunct2, THEN conjunct2,
        of "ex_context (Inr ex_pullRequest)
              (Inr [ex_status ''ci/other'' ''u1''],
               [Inl (Error ''rate limit''),
                Inr [ex_status ''continuous-integration/travis-ci/pr'' ''u3'']])"
           ex_issueComment ex_pullRequest "\<lparr>head_commit_sha = ''abc''\<rparr>"
           "[[ex_status ''ci/other'' ''u1'']]" "Error ''rate limit''"
           "[Inr [ex_status ''continuous-integration/travis-ci/pr'' ''u3'']]"]
    by (simp add: ex_context_def ex_pullRequest_def ex_status_def)
  have c5: "result_of (getLatestTravisStatus
        (ex_context (Inr ex_pullRequest)
           (Inr [ex_status ''ci/other'' ''u1''],
            [Inr [ex_status ''ci/lint'' ''u2'',
                  ex_status ''continuous-integration/travis-ci/pr'' ''u3'',
                  ex_status ''continuous-integration/travis-ci/pr'' ''u4''],
             Inl (Error ''rate limit'')]))
        ex_issueComment)
      = Inr (Some \<lparr>si_repository = ic_repository ex_issueComment,
                   si_sha = ''abc'', si_target_url = ''u3''\<rparr>)"
    using getLatestTravisStatus_result [THEN conjunct2, THEN conjunct2, THEN conjunct2,
        of "ex_context (Inr ex_pullRequest)
              (Inr [ex_status ''ci/other'' ''u1''],
               [Inr [ex_status ''ci/lint'' ''u2'',
                     ex_status ''continuous-integration/travis-ci/pr'' ''u3'',
                     ex_status ''continuous-integration/travis-ci/pr'' ''u4''],
                Inl (Error ''rate limit'')])"
           ex_issueComment ex_pullRequest "\<lparr>head_commit_sha = ''abc''\<rparr>"
           "[[ex_status ''ci/other'' ''u1'']]" _
           "[Inl (Error ''rate limit'')]"
           "[ex_status ''ci/lint'' ''u2'',
             ex_status ''continuous-integration/travis-ci/pr'' ''u3'',
             ex_status ''continuous-integration/travis-ci/pr'' ''u4'']"
           "ex_status ''continuous-integration/travis-ci/pr'' ''u3''"]
    by (simp add: ex_context_def ex_pullRequest_def ex_status_def)
  show ?thesis
    by (intro conjI h1 c1 h2 h2' c2 c3 c4 c5)
qed

end
